theory Spec2Isabelle
  imports Main
begin

section \<open>Python values and dictionaries\<close>

text \<open>
  The two modules under verification are \<^verbatim>\<open>server-config.py\<close> (the class
  \<^verbatim>\<open>ClientConfig\<close>) and \<^verbatim>\<open>config.py\<close> (the class \<^verbatim>\<open>Config\<close>, its three
  subclasses and the factory \<^verbatim>\<open>get_config\<close>).

  A table id is a Python value that is either \<^verbatim>\<open>None\<close> or a \<^verbatim>\<open>str\<close>; it is a
  \<open>string option\<close> here, \<open>None\<close> standing for Python's \<^verbatim>\<open>None\<close>. A \<^verbatim>\<open>dict\<close> with
  string keys is an association list in insertion order.

  Exceptions are values: \<^verbatim>\<open>KeyError\<close> for a subscript \<^verbatim>\<open>d[k]\<close> with a missing key,
  \<^verbatim>\<open>ImportError\<close> and its subclass \<^verbatim>\<open>ModuleNotFoundError\<close> for an import, and
  \<open>OtherException\<close>, with the name of its class, for any exception outside these classes
  that the code of an imported module raises (a \<^verbatim>\<open>SyntaxError\<close>, for one).
\<close>

datatype py_error =
  KeyError string | ImportError string | ModuleNotFoundError string | OtherException string

text \<open>What \<^verbatim>\<open>except ImportError\<close> catches: the class and its subclass.\<close>

fun is_ImportError :: "py_error \<Rightarrow> bool" where
  "is_ImportError (ImportError m) = True"
| "is_ImportError (ModuleNotFoundError m) = True"
| "is_ImportError (KeyError k) = False"
| "is_ImportError (OtherException c) = False"

type_synonym 'v dict = "(string \<times> 'v) list"

text \<open>\<^verbatim>\<open>d.get(k)\<close> on a dict whose values may be \<^verbatim>\<open>None\<close>: a missing key gives \<^verbatim>\<open>None\<close> too.\<close>

definition dict_get :: "(string option) dict \<Rightarrow> string \<Rightarrow> string option" where
  "dict_get d k = (case map_of d k of None \<Rightarrow> None | Some v \<Rightarrow> v)"

text \<open>\<^verbatim>\<open>d[k]\<close> as an expression: a missing key raises.\<close>

definition dict_getitem :: "'v dict \<Rightarrow> string \<Rightarrow> py_error + 'v" where
  "dict_getitem d k = (case map_of d k of None \<Rightarrow> Inl (KeyError k) | Some v \<Rightarrow> Inr v)"

text \<open>
  \<^verbatim>\<open>d[k] = v\<close> as a statement: an existing key keeps its position and gets the new value,
  a new key goes to the end.
\<close>

fun dict_setitem :: "'v dict \<Rightarrow> string \<Rightarrow> 'v \<Rightarrow> 'v dict" where
  "dict_setitem [] k v = [(k, v)]"
| "dict_setitem ((k', v') # d) k v =
     (if k' = k then (k, v) # d else (k', v') # dict_setitem d k v)"

text \<open>Sequencing of statements that may raise.\<close>

definition bind_result :: "py_error + 'a \<Rightarrow> ('a \<Rightarrow> py_error + 'b) \<Rightarrow> py_error + 'b" where
  "bind_result r f = (case r of Inl e \<Rightarrow> Inl e | Inr x \<Rightarrow> f x)"

section \<open>\<^verbatim>\<open>server-config.py\<close>: the class \<^verbatim>\<open>ClientConfig\<close>\<close>

text \<open>The class attributes. Every method is a classmethod and reads them through \<^verbatim>\<open>cls\<close>.\<close>

record client_config =
  CLIENT_NAME :: string
  BUSINESS_NAME :: string
  AIRTABLE_BASE_ID :: string
  TABLE_IDS :: "(string option) dict"
  ENABLED_SOURCES :: "string list"
  DISABLED_SOURCES :: "string list"

text \<open>The values the file gives them.\<close>

definition ClientConfig :: client_config where
  "ClientConfig =
     \<lparr> CLIENT_NAME = ''Cellular Zone'',
       BUSINESS_NAME = ''Cellular Zone'',
       AIRTABLE_BASE_ID = ''app9JgRBZC2GNlaKM'',
       TABLE_IDS =
         [ (''ghl'', Some ''tbl0Er1mMwZO1Pvfj''),
           (''google_ads'', Some ''tblIhvVihVoghHfVa''),
           (''pos'', None),
           (''meta_ads'', None),
           (''meta_ads_simplified'', None),
           (''meta_ads_summary'', None),
           (''meta_ads_performance'', None) ],
       ENABLED_SOURCES = [''ghl'', ''google_ads''],
       DISABLED_SOURCES = [] \<rparr>"

text \<open>One value of the dict \<^verbatim>\<open>get_fresh_tables\<close> builds: the four keys of the inner dict.\<close>

record table_entry =
  id' :: "string option"
  name :: string
  date_field :: string
  sort_direction :: string

text \<open>
  \<^verbatim>\<open>is_enabled\<close>: membership in the list \<^verbatim>\<open>ENABLED_SOURCES\<close> and three tests on
  \<^verbatim>\<open>TABLE_IDS.get(data_source)\<close>.
\<close>

definition is_enabled :: "client_config \<Rightarrow> string \<Rightarrow> bool" where
  "is_enabled cls data_source =
     (data_source \<in> set (ENABLED_SOURCES cls) \<and>
      dict_get (TABLE_IDS cls) data_source \<noteq> None \<and>
      dict_get (TABLE_IDS cls) data_source \<noteq> Some ''null'' \<and>
      dict_get (TABLE_IDS cls) data_source \<noteq> Some '''')"

text \<open>
  \<^verbatim>\<open>get_table_id\<close>: the conditional expression tests the truthiness of \<^verbatim>\<open>table_id\<close>
  first (\<^verbatim>\<open>None\<close> and the empty string are falsy), then the two inequalities.
\<close>

definition truthy :: "string option \<Rightarrow> bool" where
  "truthy v = (case v of None \<Rightarrow> False | Some s \<Rightarrow> s \<noteq> [])"

definition get_table_id :: "client_config \<Rightarrow> string \<Rightarrow> string option" where
  "get_table_id cls data_source =
     (let table_id = dict_get (TABLE_IDS cls) data_source
      in if truthy table_id \<and> table_id \<noteq> Some ''null'' \<and> table_id \<noteq> Some ''''
         then table_id else None)"

definition get_base_id :: "client_config \<Rightarrow> string" where
  "get_base_id cls = AIRTABLE_BASE_ID cls"

text \<open>
  \<^verbatim>\<open>get_fresh_tables\<close>: seven conditional blocks in the order of the source, each one
  subscripting \<^verbatim>\<open>TABLE_IDS\<close> (which may raise) and assigning into \<^verbatim>\<open>fresh_tables\<close>.
\<close>

definition get_fresh_tables :: "client_config \<Rightarrow> py_error + table_entry dict" where
  "get_fresh_tables cls =
     bind_result (Inr []) (\<lambda>fresh_tables.
     bind_result
       (if is_enabled cls ''ghl'' then
          bind_result (dict_getitem (TABLE_IDS cls) ''ghl'') (\<lambda>v.
            Inr (dict_setitem fresh_tables ''ghl''
              \<lparr> id' = v, name = CLIENT_NAME cls @ '' GHL'',
                date_field = ''Date Created'', sort_direction = ''desc'' \<rparr>))
        else Inr fresh_tables) (\<lambda>fresh_tables.
     bind_result
       (if is_enabled cls ''pos'' then
          bind_result (dict_getitem (TABLE_IDS cls) ''pos'') (\<lambda>v.
            Inr (dict_setitem fresh_tables ''pos''
              \<lparr> id' = v, name = CLIENT_NAME cls @ '' POS'',
                date_field = ''Created'', sort_direction = ''desc'' \<rparr>))
        else Inr fresh_tables) (\<lambda>fresh_tables.
     bind_result
       (if is_enabled cls ''google_ads'' then
          bind_result (dict_getitem (TABLE_IDS cls) ''google_ads'') (\<lambda>v.
            Inr (dict_setitem fresh_tables ''google_ads''
              \<lparr> id' = v, name = CLIENT_NAME cls @ '' Google Ads'',
                date_field = ''Date'', sort_direction = ''desc'' \<rparr>))
        else Inr fresh_tables) (\<lambda>fresh_tables.
     bind_result
       (if is_enabled cls ''meta_ads'' then
          bind_result (dict_getitem (TABLE_IDS cls) ''meta_ads'') (\<lambda>v.
            Inr (dict_setitem fresh_tables ''meta_ads''
              \<lparr> id' = v, name = CLIENT_NAME cls @ '' Meta Ads'',
                date_field = ''Reporting ends'', sort_direction = ''desc'' \<rparr>))
        else Inr fresh_tables) (\<lambda>fresh_tables.
     bind_result
       (if is_enabled cls ''meta_ads_summary'' then
          bind_result (dict_getitem (TABLE_IDS cls) ''meta_ads_summary'') (\<lambda>v.
            Inr (dict_setitem fresh_tables ''meta_ads_summary''
              \<lparr> id' = v, name = CLIENT_NAME cls @ '' Meta Ads Summary'',
                date_field = ''Reporting ends'', sort_direction = ''desc'' \<rparr>))
        else Inr fresh_tables) (\<lambda>fresh_tables.
     bind_result
       (if is_enabled cls ''meta_ads_simplified'' then
          bind_result (dict_getitem (TABLE_IDS cls) ''meta_ads_simplified'') (\<lambda>v.
            Inr (dict_setitem fresh_tables ''meta_ads_simplified''
              \<lparr> id' = v, name = CLIENT_NAME cls @ '' Meta Ads Simplified'',
                date_field = ''period'', sort_direction = ''desc'' \<rparr>))
        else Inr fresh_tables) (\<lambda>fresh_tables.
     bind_result
       (if is_enabled cls ''meta_ads_performance'' then
          bind_result (dict_getitem (TABLE_IDS cls) ''meta_ads_performance'') (\<lambda>v.
            Inr (dict_setitem fresh_tables ''meta_ads_performance''
              \<lparr> id' = v, name = CLIENT_NAME cls @ '' Meta Ads Performance'',
                date_field = ''Date'', sort_direction = ''desc'' \<rparr>))
        else Inr fresh_tables) (\<lambda>fresh_tables.
     Inr fresh_tables))))))))"

text \<open>
  \<^verbatim>\<open>str.lower()\<close>, on strings of one-byte characters: the letters \<^verbatim>\<open>A\<close> to \<^verbatim>\<open>Z\<close>
  (codes 65 to 90) move to \<^verbatim>\<open>a\<close> to \<^verbatim>\<open>z\<close>, every other character stays.
\<close>

definition char_lower :: "char \<Rightarrow> char" where
  "char_lower c =
     (let n = (of_char c :: nat) in if 65 \<le> n \<and> n \<le> 90 then char_of (n + 32) else c)"

definition lower :: "string \<Rightarrow> string" where
  "lower s = map char_lower s"

text \<open>
  \<^verbatim>\<open>str.replace(old, new)\<close>: occurrences of \<open>old\<close> are replaced from the left and do
  not overlap; an empty \<open>old\<close> matches before every character and at the end.
\<close>

function replace :: "string \<Rightarrow> string \<Rightarrow> string \<Rightarrow> string" where
  "replace [] old new = (if old = [] then new else [])"
| "replace (c # cs) old new =
     (if old = [] then new @ c # replace cs old new
      else if take (length old) (c # cs) = old
        then new @ replace (drop (length old) (c # cs)) old new
      else c # replace cs old new)"
  by pat_completeness auto
termination
  by (relation "measure (\<lambda>(s, old, new). length s)") auto

text \<open>The nested dict \<^verbatim>\<open>get_client_config_for_frontend\<close> returns, group by group.\<close>

record client_info_rec =
  client_id :: string
  business_name :: string

record data_sources_rec =
  enabled_sources :: "string list"
  disabled_sources :: "string list"

record tab_configuration_rec =
  enabled_tabs :: "string list"
  default_tab :: string

record airtable_configuration_rec =
  base_id :: string

record frontend_config =
  client_info :: client_info_rec
  data_sources :: data_sources_rec
  tab_configuration :: tab_configuration_rec
  airtable_configuration :: airtable_configuration_rec

definition get_client_config_for_frontend :: "client_config \<Rightarrow> frontend_config" where
  "get_client_config_for_frontend cls =
     \<lparr> client_info =
         \<lparr> client_id = replace (lower (CLIENT_NAME cls)) '' '' ''_'',
           business_name = BUSINESS_NAME cls \<rparr>,
       data_sources =
         \<lparr> enabled_sources = ENABLED_SOURCES cls,
           disabled_sources = DISABLED_SOURCES cls \<rparr>,
       tab_configuration =
         \<lparr> enabled_tabs = [''overview''] @ ENABLED_SOURCES cls,
           default_tab = ''overview'' \<rparr>,
       airtable_configuration =
         \<lparr> base_id = AIRTABLE_BASE_ID cls \<rparr> \<rparr>"

section \<open>\<^verbatim>\<open>config.py\<close>: the class \<^verbatim>\<open>Config\<close>, its subclasses and \<^verbatim>\<open>get_config\<close>\<close>

text \<open>
  The plain class attributes. \<^verbatim>\<open>DEBUG\<close> is not defined by the base class, only by the
  three subclasses: \<open>None\<close> is the missing attribute.
\<close>

record config_attrs =
  CLAUDE_API_URL :: string
  AIRTABLE_BASE_URL :: string
  HOST :: string
  PORT :: int
  CLAUDE_API_TIMEOUT :: int
  AIRTABLE_API_TIMEOUT :: int
  MAX_RECORDS_PER_REQUEST :: int
  MAX_TOTAL_RECORDS :: int
  MAX_PAGINATION_PAGES :: int
  LOG_LEVEL :: string
  LOG_FORMAT :: string
  LOG_DATE_FORMAT :: string
  LOG_FILE_MAX_BYTES :: int
  LOG_BACKUP_COUNT :: int
  CORS_ORIGINS :: "string list"
  DEBUG :: "bool option"

datatype config_class = Config | DevelopmentConfig | ProductionConfig | TestConfig

text \<open>
  The attributes of the base class \<^verbatim>\<open>Config\<close>, then attribute lookup on each class: a
  subclass is the base class with the attributes of its own body written over it.
\<close>

definition Config_attrs :: config_attrs where
  "Config_attrs =
     \<lparr> CLAUDE_API_URL = ''https://api.anthropic.com/v1/messages'',
       AIRTABLE_BASE_URL = ''https://api.airtable.com/v0'',
       HOST = ''127.0.0.1'',
       PORT = 8000,
       CLAUDE_API_TIMEOUT = 30,
       AIRTABLE_API_TIMEOUT = 15,
       MAX_RECORDS_PER_REQUEST = 100,
       MAX_TOTAL_RECORDS = 10000,
       MAX_PAGINATION_PAGES = 50,
       LOG_LEVEL = ''INFO'',
       LOG_FORMAT = ''%(asctime)s | %(levelname)-8s | %(name)s | %(message)s'',
       LOG_DATE_FORMAT = ''%Y-%m-%d %H:%M:%S'',
       LOG_FILE_MAX_BYTES = 10 * 1024 * 1024,
       LOG_BACKUP_COUNT = 5,
       CORS_ORIGINS =
         [''http://localhost:3000'', ''http://localhost:8000'', ''http://127.0.0.1:8000''],
       DEBUG = None \<rparr>"

fun class_attrs :: "config_class \<Rightarrow> config_attrs" where
  "class_attrs Config = Config_attrs"
| "class_attrs DevelopmentConfig =
     Config_attrs
       \<lparr> DEBUG := Some True,
         LOG_LEVEL := ''DEBUG'',
         LOG_FORMAT :=
           ''%(asctime)s | %(levelname)-8s | %(name)-15s | %(funcName)-20s | %(message)s'' \<rparr>"
| "class_attrs ProductionConfig =
     Config_attrs
       \<lparr> DEBUG := Some False,
         LOG_LEVEL := ''INFO'',
         MAX_TOTAL_RECORDS := 5000,
         CORS_ORIGINS := [''http://localhost:8000'', ''http://127.0.0.1:8000''] \<rparr>"
| "class_attrs TestConfig =
     Config_attrs
       \<lparr> DEBUG := Some True,
         LOG_LEVEL := ''WARNING'',
         MAX_TOTAL_RECORDS := 100,
         MAX_PAGINATION_PAGES := 5 \<rparr>"

text \<open>
  The import statement \<^verbatim>\<open>from m import x\<close>. The directory the modules are found in is a
  map from file names to what executing the file gives: an exception, or the names the
  module binds to a class of the shape of \<^verbatim>\<open>ClientConfig\<close>. The module \<open>m\<close> is found
  when the directory has the file \<^verbatim>\<open>m.py\<close>; a module that is not found raises
  \<^verbatim>\<open>ModuleNotFoundError\<close>, an exception of the module's own code leaves the import as it
  is, and a name the module does not bind raises \<^verbatim>\<open>ImportError\<close>.
\<close>

type_synonym module_namespace = "string \<rightharpoonup> client_config"

type_synonym source_tree = "string \<rightharpoonup> (py_error + module_namespace)"

definition import_from :: "source_tree \<Rightarrow> string \<Rightarrow> string \<Rightarrow> py_error + client_config" where
  "import_from files module_name attr =
     (case files (module_name @ ''.py'') of
        None \<Rightarrow> Inl (ModuleNotFoundError module_name)
      | Some (Inl e) \<Rightarrow> Inl e
      | Some (Inr namespace) \<Rightarrow>
          (case namespace attr of None \<Rightarrow> Inl (ImportError attr) | Some c \<Rightarrow> Inr c))"

text \<open>
  The three files of the repository: \<^verbatim>\<open>server-config.py\<close> binds \<^verbatim>\<open>ClientConfig\<close>, the
  other two bind no class of that shape.
\<close>

definition repository_files :: source_tree where
  "repository_files =
     [ ''config.py'' \<mapsto> Inr Map.empty,
       ''main.py'' \<mapsto> Inr Map.empty,
       ''server-config.py'' \<mapsto> Inr [''ClientConfig'' \<mapsto> ClientConfig] ]"

text \<open>
  The class attribute \<^verbatim>\<open>FRESH_TABLES\<close>. The \<^verbatim>\<open>try\<close> block of the class body holds the
  import of \<^verbatim>\<open>ClientConfig\<close> from the module \<^verbatim>\<open>server_config\<close> and the call of
  \<^verbatim>\<open>get_fresh_tables\<close>; its handler catches \<^verbatim>\<open>ImportError\<close> and the subclasses of it and
  assigns the literal dict. Any other exception of the block leaves the class body.
\<close>

definition FRESH_TABLES :: "source_tree \<Rightarrow> py_error + table_entry dict" where
  "FRESH_TABLES files =
     (case bind_result (import_from files ''server_config'' ''ClientConfig'')
             (\<lambda>ClientConfig'. get_fresh_tables ClientConfig') of
        Inr fresh_tables \<Rightarrow> Inr fresh_tables
      | Inl e \<Rightarrow>
          if is_ImportError e then
            Inr
              [ (''ghl'',
                  \<lparr> id' = Some ''CLIENT_GHL_TABLE_ID'', name = ''CLIENT_NAME GHL'',
                    date_field = ''Date Created'', sort_direction = ''desc'' \<rparr>),
                (''pos'',
                  \<lparr> id' = Some ''CLIENT_POS_TABLE_ID'', name = ''CLIENT_NAME POS'',
                    date_field = ''Created'', sort_direction = ''desc'' \<rparr>),
                (''meta_ads'',
                  \<lparr> id' = Some ''CLIENT_META_ADS_TABLE_ID'', name = ''CLIENT_NAME Meta Ads'',
                    date_field = ''Reporting ends'', sort_direction = ''desc'' \<rparr>),
                (''meta_ads_summary'',
                  \<lparr> id' = Some ''CLIENT_META_ADS_SUMMARY_TABLE_ID'',
                    name = ''CLIENT_NAME Meta Ads Summary'',
                    date_field = ''Reporting ends'', sort_direction = ''desc'' \<rparr>),
                (''meta_ads_simplified'',
                  \<lparr> id' = Some ''CLIENT_META_ADS_SIMPLIFIED_TABLE_ID'',
                    name = ''CLIENT_NAME Meta Ads Simplified'',
                    date_field = ''period'', sort_direction = ''desc'' \<rparr>),
                (''google_ads'',
                  \<lparr> id' = Some ''CLIENT_GOOGLE_ADS_TABLE_ID'', name = ''CLIENT_NAME Google Ads'',
                    date_field = ''Date'', sort_direction = ''desc'' \<rparr>) ]
          else Inl e)"

definition LEGACY_TABLES :: "table_entry dict" where
  "LEGACY_TABLES = []"

text \<open>
  What \<^verbatim>\<open>get_table_config\<close> returns on a match: the entry's four keys, then \<^verbatim>\<open>type\<close> and
  \<^verbatim>\<open>is_legacy\<close>.
\<close>

record table_config = table_entry +
  type' :: string
  is_legacy :: bool

text \<open>
  \<^verbatim>\<open>get_table_config\<close>: the loop over \<^verbatim>\<open>cls.FRESH_TABLES.items()\<close>, returning at the first
  entry whose \<^verbatim>\<open>id\<close> equals the argument; \<^verbatim>\<open>None\<close> after the loop. The first argument is
  the value of \<^verbatim>\<open>cls.FRESH_TABLES\<close>; the argument \<^verbatim>\<open>table_id\<close> may be \<^verbatim>\<open>None\<close>.
\<close>

fun get_table_config :: "table_entry dict \<Rightarrow> string option \<Rightarrow> table_config option" where
  "get_table_config [] table_id = None"
| "get_table_config ((table_type, config) # items) table_id =
     (if id' config = table_id
      then Some \<lparr> id' = id' config, name = name config, date_field = date_field config,
                  sort_direction = sort_direction config,
                  type' = table_type, is_legacy = False \<rparr>
      else get_table_config items table_id)"

text \<open>\<^verbatim>\<open>get_all_table_ids\<close>: the list comprehension over \<^verbatim>\<open>cls.FRESH_TABLES.values()\<close>.\<close>

definition get_all_table_ids :: "table_entry dict \<Rightarrow> string option list" where
  "get_all_table_ids fresh_tables = map (\<lambda>config. id' config) (map snd fresh_tables)"

text \<open>
  \<^verbatim>\<open>os.getenv(key, default)\<close> on the process environment, a finite map from names to
  values, and the factory \<^verbatim>\<open>get_config\<close>, which returns one of the classes.
\<close>

definition getenv :: "(string \<rightharpoonup> string) \<Rightarrow> string \<Rightarrow> string \<Rightarrow> string" where
  "getenv environ key default_value =
     (case environ key of None \<Rightarrow> default_value | Some v \<Rightarrow> v)"

definition get_config :: "(string \<rightharpoonup> string) \<Rightarrow> config_class" where
  "get_config environ =
     (let env = lower (getenv environ ''FLASK_ENV'' ''production'')
      in if env = ''development'' then DevelopmentConfig
         else if env = ''testing'' then TestConfig
         else ProductionConfig)"

section \<open>The specification's table of source keys\<close>

text \<open>
  The specification fixes, for each of the seven source keys, the suffix of the display name
  and the date field (the table of its section 4.1). This definition follows the
  specification's table, row by row, not the source: source key, suffix, date field.
\<close>

definition spec_source_table :: "(string \<times> string \<times> string) list" where
  "spec_source_table =
     [ (''ghl'', ''GHL'', ''Date Created''),
       (''pos'', ''POS'', ''Created''),
       (''google_ads'', ''Google Ads'', ''Date''),
       (''meta_ads'', ''Meta Ads'', ''Reporting ends''),
       (''meta_ads_summary'', ''Meta Ads Summary'', ''Reporting ends''),
       (''meta_ads_simplified'', ''Meta Ads Simplified'', ''period''),
       (''meta_ads_performance'', ''Meta Ads Performance'', ''Date'') ]"

text \<open>
  The entry the specification describes for one row: the configured table id, the client
  name, a space and the suffix, the row's date field, and the sort direction \<^verbatim>\<open>desc\<close>.
\<close>

definition spec_entry :: "client_config \<Rightarrow> string \<times> string \<times> string \<Rightarrow> table_entry" where
  "spec_entry cls row =
     (case row of (s, suffix, df) \<Rightarrow>
        \<lparr> id' = dict_get (TABLE_IDS cls) s, name = CLIENT_NAME cls @ '' '' @ suffix,
          date_field = df, sort_direction = ''desc'' \<rparr>)"

text \<open>The derived mapping as the specification describes it: the rows of the enabled keys.\<close>

definition spec_fresh_tables :: "client_config \<Rightarrow> table_entry dict" where
  "spec_fresh_tables cls =
     map (\<lambda>row. (fst row, spec_entry cls row))
       (filter (\<lambda>row. is_enabled cls (fst row)) spec_source_table)"

text \<open>
  One conditional block of \<^verbatim>\<open>get_fresh_tables\<close>, seen from the table: the assignment of
  the row's entry when the row's key is enabled. It is used to compare the source's seven
  blocks with the table, and is no part of the source.
\<close>

definition add_source ::
  "client_config \<Rightarrow> table_entry dict \<Rightarrow> string \<times> string \<times> string \<Rightarrow> table_entry dict" where
  "add_source cls ft row =
     (if is_enabled cls (fst row) then dict_setitem ft (fst row) (spec_entry cls row) else ft)"

section \<open>Properties of \<^verbatim>\<open>ClientConfig\<close>\<close>

lemma dict_get_valid:
  "(dict_get d k \<noteq> None \<and> dict_get d k \<noteq> Some ''null'' \<and> dict_get d k \<noteq> Some '''')
     = (\<exists>t. map_of d k = Some (Some t) \<and> t \<noteq> '''' \<and> t \<noteq> ''null'')"
  by (cases "map_of d k") (auto simp: dict_get_def)

lemma bind_result_Inr: "bind_result (Inr x) f = f x"
  by (simp add: bind_result_def)

lemma is_enabled_lookup:
  "is_enabled cls s \<Longrightarrow> \<exists>t. map_of (TABLE_IDS cls) s = Some (Some t) \<and> t \<noteq> [] \<and> t \<noteq> ''null''"
  unfolding is_enabled_def using dict_get_valid [of "TABLE_IDS cls" s] by blast

text \<open>
  C1. For every source key \<open>s\<close>, \<^verbatim>\<open>is_enabled(s)\<close> is true exactly when \<open>s\<close> is a member of
  \<^verbatim>\<open>ENABLED_SOURCES\<close> and \<^verbatim>\<open>TABLE_IDS\<close> holds for \<open>s\<close> a value that is present (the key
  is there and its value is not \<^verbatim>\<open>None\<close>), is not the empty string and is not the
  string \<^verbatim>\<open>"null"\<close>.
\<close>

theorem is_enabled_iff:
  "is_enabled cls s =
     (s \<in> set (ENABLED_SOURCES cls) \<and>
      (\<exists>t. map_of (TABLE_IDS cls) s = Some (Some t) \<and> t \<noteq> '''' \<and> t \<noteq> ''null''))"
  unfolding is_enabled_def using dict_get_valid [of "TABLE_IDS cls" s] by blast

section \<open>The derived mapping\<close>

lemma block_eq:
  "(if is_enabled cls k
    then bind_result (dict_getitem (TABLE_IDS cls) k) (\<lambda>v.
           Inr (dict_setitem ft k
             \<lparr> id' = v, name = CLIENT_NAME cls @ CHR '' '' # suffix,
               date_field = df, sort_direction = ''desc'' \<rparr>))
    else Inr ft)
   = Inr (add_source cls ft (k, suffix, df))"
proof (cases "is_enabled cls k")
  case True
  then obtain t where "map_of (TABLE_IDS cls) k = Some (Some t)"
    using is_enabled_lookup by blast
  then show ?thesis
    using True
    by (simp add: dict_getitem_def dict_get_def bind_result_def add_source_def spec_entry_def)
next
  case False
  then show ?thesis by (simp add: add_source_def)
qed

lemma get_fresh_tables_foldl:
  "get_fresh_tables cls = Inr (foldl (add_source cls) [] spec_source_table)"
  by (simp only: get_fresh_tables_def block_eq bind_result_Inr spec_source_table_def foldl.simps)

lemma dict_setitem_new: "k \<notin> fst ` set d \<Longrightarrow> dict_setitem d k v = d @ [(k, v)]"
  by (induction d) auto

lemma foldl_add_source:
  "distinct (map fst acc @ map fst rows) \<Longrightarrow>
   foldl (add_source cls) acc rows
     = acc @ map (\<lambda>row. (fst row, spec_entry cls row))
               (filter (\<lambda>row. is_enabled cls (fst row)) rows)"
proof (induction rows arbitrary: acc)
  case Nil
  show ?case by simp
next
  case (Cons row rows)
  have fresh: "fst row \<notin> fst ` set acc"
    using Cons.prems by auto
  show ?case
  proof (cases "is_enabled cls (fst row)")
    case True
    have "distinct (map fst (acc @ [(fst row, spec_entry cls row)]) @ map fst rows)"
      using Cons.prems by auto
    from Cons.IH [OF this] show ?thesis
      using True fresh by (simp add: add_source_def dict_setitem_new)
  next
    case False
    have "distinct (map fst acc @ map fst rows)"
      using Cons.prems by auto
    from Cons.IH [OF this] show ?thesis
      using False by (simp add: add_source_def)
  qed
qed

lemma distinct_spec_source_table: "distinct (map fst spec_source_table)"
  by (simp add: spec_source_table_def)

lemma get_fresh_tables_eq: "get_fresh_tables cls = Inr (spec_fresh_tables cls)"
  using foldl_add_source [of "[]" spec_source_table cls] distinct_spec_source_table
  by (simp add: get_fresh_tables_foldl spec_fresh_tables_def)

lemma spec_fresh_tables_keys:
  "(s \<in> fst ` set (spec_fresh_tables cls)) = (s \<in> fst ` set spec_source_table \<and> is_enabled cls s)"
  by (force simp: spec_fresh_tables_def)

lemma distinct_spec_fresh_tables: "distinct (map fst (spec_fresh_tables cls))"
proof -
  have "map fst (spec_fresh_tables cls)
          = filter (is_enabled cls) (map fst spec_source_table)"
    by (simp add: spec_fresh_tables_def filter_map comp_def)
  then show ?thesis
    using distinct_spec_source_table by simp
qed

lemma spec_fresh_tables_lookup:
  assumes "row \<in> set spec_source_table" and "is_enabled cls (fst row)"
  shows "map_of (spec_fresh_tables cls) (fst row) = Some (spec_entry cls row)"
proof -
  have "(fst row, spec_entry cls row) \<in> set (spec_fresh_tables cls)"
    using assms by (force simp: spec_fresh_tables_def)
  then show ?thesis
    by (rule map_of_is_SomeI [OF distinct_spec_fresh_tables])
qed

lemma get_table_id_enabled:
  "is_enabled cls s \<Longrightarrow> map_of (TABLE_IDS cls) s = Some (Some t) \<Longrightarrow> get_table_id cls s = Some t"
  by (simp add: get_table_id_def is_enabled_def dict_get_def truthy_def Let_def)

lemma spec_fresh_tables_member:
  assumes "(k, e) \<in> set (spec_fresh_tables cls)"
  shows "\<exists>row. row \<in> set spec_source_table \<and> is_enabled cls (fst row) \<and>
               k = fst row \<and> e = spec_entry cls row"
proof -
  have "(k, e) \<in> (\<lambda>row. (fst row, spec_entry cls row)) `
          {row \<in> set spec_source_table. is_enabled cls (fst row)}"
    using assms by (simp add: spec_fresh_tables_def)
  then show ?thesis by blast
qed

lemma spec_entry_id:
  "map_of (TABLE_IDS cls) (fst row) = Some (Some t) \<Longrightarrow> id' (spec_entry cls row) = Some t"
  by (cases row) (simp add: spec_entry_def dict_get_def)

lemma spec_fresh_tables_valid_id:
  assumes "(k, e) \<in> set (spec_fresh_tables cls)"
  shows "\<exists>t. id' e = Some t \<and> t \<noteq> '''' \<and> t \<noteq> ''null''"
proof -
  obtain row where row: "is_enabled cls (fst row)" "e = spec_entry cls row"
    using spec_fresh_tables_member [OF assms] by blast
  obtain t where t: "map_of (TABLE_IDS cls) (fst row) = Some (Some t)" "t \<noteq> ''''" "t \<noteq> ''null''"
    using row(1) is_enabled_lookup by blast
  have "id' e = Some t"
    using spec_entry_id [OF t(1)] row(2) by simp
  then show ?thesis
    using t(2,3) by blast
qed

text \<open>The derived mapping of the \<^verbatim>\<open>ClientConfig\<close> of the file, evaluated block by block.\<close>

lemma derived_ClientConfig:
  "get_fresh_tables ClientConfig =
     Inr [ (''ghl'',
             \<lparr> id' = Some ''tbl0Er1mMwZO1Pvfj'', name = ''Cellular Zone GHL'',
               date_field = ''Date Created'', sort_direction = ''desc'' \<rparr>),
           (''google_ads'',
             \<lparr> id' = Some ''tblIhvVihVoghHfVa'', name = ''Cellular Zone Google Ads'',
               date_field = ''Date'', sort_direction = ''desc'' \<rparr>) ]"
proof -
  have en: "is_enabled ClientConfig ''ghl''" "\<not> is_enabled ClientConfig ''pos''"
    "is_enabled ClientConfig ''google_ads''" "\<not> is_enabled ClientConfig ''meta_ads''"
    "\<not> is_enabled ClientConfig ''meta_ads_summary''"
    "\<not> is_enabled ClientConfig ''meta_ads_simplified''"
    "\<not> is_enabled ClientConfig ''meta_ads_performance''"
    by (simp_all add: is_enabled_def dict_get_def ClientConfig_def)
  have ids: "dict_getitem (TABLE_IDS ClientConfig) ''ghl'' = Inr (Some ''tbl0Er1mMwZO1Pvfj'')"
    "dict_getitem (TABLE_IDS ClientConfig) ''google_ads'' = Inr (Some ''tblIhvVihVoghHfVa'')"
    by (simp_all add: dict_getitem_def ClientConfig_def)
  have nm: "CLIENT_NAME ClientConfig = ''Cellular Zone''"
    by (simp add: ClientConfig_def)
  show ?thesis
    by (simp add: get_fresh_tables_def en ids nm bind_result_Inr)
qed

text \<open>
  C2. For each of the seven fixed source keys \<open>s\<close>, with the suffix and the date field the
  table gives it: \<^verbatim>\<open>get_fresh_tables()\<close> returns a dict (it does not raise), \<open>s\<close> is one of
  its keys exactly when \<^verbatim>\<open>is_enabled(s)\<close> holds, and then the entry under \<open>s\<close> has as
  \<^verbatim>\<open>id\<close> the value \<^verbatim>\<open>TABLE_IDS[s]\<close>, as \<^verbatim>\<open>name\<close> the client name, a space and the suffix,
  as \<^verbatim>\<open>date_field\<close> the date field of the table, and as \<^verbatim>\<open>sort_direction\<close> the string
  \<^verbatim>\<open>desc\<close>.
\<close>

theorem get_fresh_tables_entries:
  assumes "(s, suffix, df) \<in> set spec_source_table"
  shows "\<exists>ft. get_fresh_tables cls = Inr ft \<and>
           (s \<in> fst ` set ft) = is_enabled cls s \<and>
           (is_enabled cls s \<longrightarrow>
              (\<exists>e. dict_getitem ft s = Inr e \<and>
                   dict_getitem (TABLE_IDS cls) s = Inr (id' e) \<and>
                   name e = CLIENT_NAME cls @ '' '' @ suffix \<and>
                   date_field e = df \<and>
                   sort_direction e = ''desc''))"
proof -
  have keys: "(s \<in> fst ` set (spec_fresh_tables cls)) = is_enabled cls s"
    using assms spec_fresh_tables_keys [of s cls] by force
  have entry: "\<exists>e. dict_getitem (spec_fresh_tables cls) s = Inr e \<and>
                   dict_getitem (TABLE_IDS cls) s = Inr (id' e) \<and>
                   name e = CLIENT_NAME cls @ '' '' @ suffix \<and>
                   date_field e = df \<and>
                   sort_direction e = ''desc''" if en: "is_enabled cls s"
  proof -
    obtain t where t: "map_of (TABLE_IDS cls) s = Some (Some t)"
      using en is_enabled_lookup by blast
    have "map_of (spec_fresh_tables cls) s = Some (spec_entry cls (s, suffix, df))"
      using spec_fresh_tables_lookup [OF assms, of cls] en by simp
    then show ?thesis
      using t by (simp add: dict_getitem_def dict_get_def spec_entry_def)
  qed
  show ?thesis
    using keys entry by (simp add: get_fresh_tables_eq)
qed

theorem get_fresh_tables_entries_witness:
  "(''ghl'', ''GHL'', ''Date Created'') \<in> set spec_source_table \<and>
   is_enabled ClientConfig ''ghl'' \<and>
   (\<exists>ft. get_fresh_tables ClientConfig = Inr ft \<and>
         ''ghl'' \<in> fst ` set ft \<and>
         (\<exists>e. dict_getitem ft ''ghl'' = Inr e \<and>
              id' e = Some ''tbl0Er1mMwZO1Pvfj'' \<and>
              name e = ''Cellular Zone GHL'' \<and>
              date_field e = ''Date Created'' \<and>
              sort_direction e = ''desc''))"
proof -
  have row: "(''ghl'', ''GHL'', ''Date Created'') \<in> set spec_source_table"
    by (simp add: spec_source_table_def)
  have en: "is_enabled ClientConfig ''ghl''"
    by (simp add: is_enabled_def dict_get_def ClientConfig_def)
  have tid: "dict_getitem (TABLE_IDS ClientConfig) ''ghl'' = Inr (Some ''tbl0Er1mMwZO1Pvfj'')"
    by (simp add: dict_getitem_def ClientConfig_def)
  have nm: "CLIENT_NAME ClientConfig @ '' '' @ ''GHL'' = ''Cellular Zone GHL''"
    by (simp add: ClientConfig_def)
  show ?thesis
    using get_fresh_tables_entries [OF row, of ClientConfig] row en tid nm by auto
qed

text \<open>
  C10. If \<^verbatim>\<open>is_enabled(s)\<close> holds, then \<^verbatim>\<open>get_table_id(s)\<close> is a string, neither empty nor
  \<^verbatim>\<open>"null"\<close>, it is the value \<^verbatim>\<open>TABLE_IDS[s]\<close>, and for \<open>s\<close> among the seven fixed keys it
  is the \<^verbatim>\<open>id\<close> of the entry \<^verbatim>\<open>get_fresh_tables()[s]\<close>. Every entry of the dict
  \<^verbatim>\<open>get_fresh_tables()\<close> returns has as \<^verbatim>\<open>id\<close> a string that is neither empty nor
  \<^verbatim>\<open>"null"\<close>.
\<close>

theorem enabled_source_has_valid_table_id:
  "(is_enabled cls s \<longrightarrow>
      (\<exists>t. get_table_id cls s = Some t \<and>
           dict_getitem (TABLE_IDS cls) s = Inr (Some t) \<and>
           t \<noteq> '''' \<and> t \<noteq> ''null'' \<and>
           (s \<in> fst ` set spec_source_table \<longrightarrow>
              (\<exists>ft e. get_fresh_tables cls = Inr ft \<and> dict_getitem ft s = Inr e \<and>
                      id' e = Some t)))) \<and>
   (\<forall>ft k e. get_fresh_tables cls = Inr ft \<and> (k, e) \<in> set ft \<longrightarrow>
      (\<exists>t. id' e = Some t \<and> t \<noteq> '''' \<and> t \<noteq> ''null''))"
proof (intro conjI impI allI)
  assume en: "is_enabled cls s"
  then obtain t where t: "map_of (TABLE_IDS cls) s = Some (Some t)" "t \<noteq> ''''" "t \<noteq> ''null''"
    using is_enabled_lookup by blast
  have a: "get_table_id cls s = Some t"
    by (rule get_table_id_enabled [OF en t(1)])
  have b: "dict_getitem (TABLE_IDS cls) s = Inr (Some t)"
    using t(1) by (simp add: dict_getitem_def)
  have c: "\<exists>ft e. get_fresh_tables cls = Inr ft \<and> dict_getitem ft s = Inr e \<and> id' e = Some t"
    if key: "s \<in> fst ` set spec_source_table"
  proof -
    obtain row where row: "row \<in> set spec_source_table" "fst row = s"
      using key by (elim imageE) simp
    have "map_of (spec_fresh_tables cls) s = Some (spec_entry cls row)"
      using spec_fresh_tables_lookup [OF row(1), of cls] en row(2) by simp
    moreover have "id' (spec_entry cls row) = Some t"
      using spec_entry_id [of cls row t] t(1) row(2) by simp
    ultimately show ?thesis
      by (simp add: get_fresh_tables_eq dict_getitem_def)
  qed
  show "\<exists>t. get_table_id cls s = Some t \<and>
           dict_getitem (TABLE_IDS cls) s = Inr (Some t) \<and>
           t \<noteq> '''' \<and> t \<noteq> ''null'' \<and>
           (s \<in> fst ` set spec_source_table \<longrightarrow>
              (\<exists>ft e. get_fresh_tables cls = Inr ft \<and> dict_getitem ft s = Inr e \<and>
                      id' e = Some t))"
    using a b c t(2,3) by blast
next
  fix ft k e
  assume "get_fresh_tables cls = Inr ft \<and> (k, e) \<in> set ft"
  then have "(k, e) \<in> set (spec_fresh_tables cls)"
    by (simp add: get_fresh_tables_eq)
  then show "\<exists>t. id' e = Some t \<and> t \<noteq> '''' \<and> t \<noteq> ''null''"
    by (rule spec_fresh_tables_valid_id)
qed

theorem enabled_source_has_valid_table_id_witness:
  "is_enabled ClientConfig ''ghl'' \<and>
   get_table_id ClientConfig ''ghl'' = Some ''tbl0Er1mMwZO1Pvfj'' \<and>
   (\<exists>ft e. get_fresh_tables ClientConfig = Inr ft \<and> dict_getitem ft ''ghl'' = Inr e \<and>
           id' e = get_table_id ClientConfig ''ghl'') \<and>
   (\<exists>ft e t. get_fresh_tables ClientConfig = Inr ft \<and> (''google_ads'', e) \<in> set ft \<and>
           id' e = Some t \<and> t \<noteq> [] \<and> t \<noteq> ''null'')"
proof -
  have en: "is_enabled ClientConfig ''ghl''"
    by (simp add: is_enabled_def dict_get_def ClientConfig_def)
  have key: "''ghl'' \<in> fst ` set spec_source_table"
    by (simp add: spec_source_table_def)
  have tid: "dict_getitem (TABLE_IDS ClientConfig) ''ghl'' = Inr (Some ''tbl0Er1mMwZO1Pvfj'')"
    by (simp add: dict_getitem_def ClientConfig_def)
  from enabled_source_has_valid_table_id [of ClientConfig "''ghl''"] en key
  obtain t ft e where first:
    "get_table_id ClientConfig ''ghl'' = Some t"
    "dict_getitem (TABLE_IDS ClientConfig) ''ghl'' = Inr (Some t)"
    "get_fresh_tables ClientConfig = Inr ft" "dict_getitem ft ''ghl'' = Inr e" "id' e = Some t"
    by blast
  obtain ft' e' where entry: "get_fresh_tables ClientConfig = Inr ft'"
    "(''google_ads'', e') \<in> set ft'"
    by (simp add: derived_ClientConfig)
  from enabled_source_has_valid_table_id [of ClientConfig "''ghl''"] entry
  obtain t' where second: "id' e' = Some t'" "t' \<noteq> []" "t' \<noteq> ''null''"
    by blast
  show ?thesis
    using en tid first entry second by auto
qed

section \<open>Properties of \<^verbatim>\<open>get_config\<close> and of the classes\<close>

lemma char_lower_idem: "char_lower (char_lower c) = char_lower c"
proof -
  have "of_char c < (256::nat)" by simp
  then show ?thesis
    by (auto simp: char_lower_def Let_def)
qed

lemma lower_idem: "lower (lower s) = lower s"
  by (simp add: lower_def char_lower_idem)

lemma lower_examples:
  "lower ''production'' = ''production''"
  "lower ''PRODUCTION'' = ''production''"
  "lower ''Development'' = ''development''"
  "lower ''TESTING'' = ''testing''"
  "lower ''staging'' = ''staging''"
  "lower ''development'' = ''development''"
  "lower ''testing'' = ''testing''"
  by (simp_all add: lower_def char_lower_def char_of_def bit_Suc_0_iff)

text \<open>
  C4. \<^verbatim>\<open>get_config\<close> is a total function of the environment. With \<^verbatim>\<open>FLASK_ENV\<close> unset it
  returns \<^verbatim>\<open>ProductionConfig\<close>; with \<^verbatim>\<open>FLASK_ENV\<close> set to \<open>v\<close> it returns
  \<^verbatim>\<open>DevelopmentConfig\<close> when the lowercased \<open>v\<close> is \<^verbatim>\<open>development\<close>, \<^verbatim>\<open>TestConfig\<close> when it is
  \<^verbatim>\<open>testing\<close>, and \<^verbatim>\<open>ProductionConfig\<close> for every other value. Two values that agree up to
  case select the same class. In particular an unset variable, \<^verbatim>\<open>production\<close> and
  \<^verbatim>\<open>PRODUCTION\<close> all give \<^verbatim>\<open>ProductionConfig\<close>.
\<close>

theorem get_config_selects:
  "(environ ''FLASK_ENV'' = None \<longrightarrow> get_config environ = ProductionConfig) \<and>
   (\<forall>v. environ ''FLASK_ENV'' = Some v \<longrightarrow>
      get_config environ =
        (if lower v = ''development'' then DevelopmentConfig
         else if lower v = ''testing'' then TestConfig
         else ProductionConfig)) \<and>
   (\<forall>v w. lower v = lower w \<longrightarrow>
      get_config [''FLASK_ENV'' \<mapsto> v] = get_config [''FLASK_ENV'' \<mapsto> w]) \<and>
   get_config [''FLASK_ENV'' \<mapsto> lower v] = get_config [''FLASK_ENV'' \<mapsto> v] \<and>
   get_config Map.empty = ProductionConfig \<and>
   get_config [''FLASK_ENV'' \<mapsto> ''production''] = ProductionConfig \<and>
   get_config [''FLASK_ENV'' \<mapsto> ''PRODUCTION''] = ProductionConfig \<and>
   get_config [''FLASK_ENV'' \<mapsto> ''development''] = DevelopmentConfig \<and>
   get_config [''FLASK_ENV'' \<mapsto> ''testing''] = TestConfig"
proof -
  have none: "environ ''FLASK_ENV'' = None \<longrightarrow> get_config environ = ProductionConfig"
    by (simp add: get_config_def getenv_def lower_examples)
  have some: "\<forall>v. environ ''FLASK_ENV'' = Some v \<longrightarrow>
      get_config environ =
        (if lower v = ''development'' then DevelopmentConfig
         else if lower v = ''testing'' then TestConfig
         else ProductionConfig)"
    by (simp add: get_config_def getenv_def Let_def)
  have one: "get_config [''FLASK_ENV'' \<mapsto> u] =
        (if lower u = ''development'' then DevelopmentConfig
         else if lower u = ''testing'' then TestConfig
         else ProductionConfig)" for u
    by (simp add: get_config_def getenv_def Let_def)
  have insens: "\<forall>v w. lower v = lower w \<longrightarrow>
      get_config [''FLASK_ENV'' \<mapsto> v] = get_config [''FLASK_ENV'' \<mapsto> w]"
    by (simp add: one)
  have norm: "get_config [''FLASK_ENV'' \<mapsto> lower v] = get_config [''FLASK_ENV'' \<mapsto> v]"
    by (simp add: one lower_idem)
  have empty: "get_config Map.empty = ProductionConfig"
    by (simp add: get_config_def getenv_def lower_examples)
  have c1: "get_config [''FLASK_ENV'' \<mapsto> ''production''] = ProductionConfig"
    by (simp add: one lower_examples)
  have c2: "get_config [''FLASK_ENV'' \<mapsto> ''PRODUCTION''] = ProductionConfig"
    by (simp add: one lower_examples)
  have c3: "get_config [''FLASK_ENV'' \<mapsto> ''development''] = DevelopmentConfig"
    by (simp add: one lower_examples)
  have c4: "get_config [''FLASK_ENV'' \<mapsto> ''testing''] = TestConfig"
    by (simp add: one lower_examples)
  show ?thesis
    using none some insens norm empty c1 c2 c3 c4 by blast
qed

theorem get_config_selects_witness:
  "[''FLASK_ENV'' \<mapsto> ''Development''] ''FLASK_ENV'' = Some ''Development'' \<and>
   lower ''Development'' = lower ''development'' \<and>
   get_config [''FLASK_ENV'' \<mapsto> ''Development''] = DevelopmentConfig \<and>
   get_config [''FLASK_ENV'' \<mapsto> ''TESTING''] = TestConfig \<and>
   get_config [''FLASK_ENV'' \<mapsto> ''staging''] = ProductionConfig"
proof -
  have l: "lower ''Development'' = ''development''" "lower ''TESTING'' = ''testing''"
    "lower ''staging'' = ''staging''" "lower ''development'' = ''development''"
    by (simp_all add: lower_examples)
  have a: "get_config [''FLASK_ENV'' \<mapsto> ''Development''] = DevelopmentConfig"
    using get_config_selects [of "[''FLASK_ENV'' \<mapsto> ''Development'']" "[]"] l by simp
  have b: "get_config [''FLASK_ENV'' \<mapsto> ''TESTING''] = TestConfig"
    using get_config_selects [of "[''FLASK_ENV'' \<mapsto> ''TESTING'']" "[]"] l by simp
  have c: "get_config [''FLASK_ENV'' \<mapsto> ''staging''] = ProductionConfig"
    using get_config_selects [of "[''FLASK_ENV'' \<mapsto> ''staging'']" "[]"] l by simp
  show ?thesis
    using a b c l by simp
qed

text \<open>
  C5. The attributes of the four classes: the base class has log level \<^verbatim>\<open>INFO\<close>,
  \<^verbatim>\<open>MAX_TOTAL_RECORDS\<close> 10000, \<^verbatim>\<open>MAX_PAGINATION_PAGES\<close> 50 and three origins;
  \<^verbatim>\<open>DevelopmentConfig\<close> has \<^verbatim>\<open>DEBUG\<close> true and log level \<^verbatim>\<open>DEBUG\<close> and inherits the limits;
  \<^verbatim>\<open>ProductionConfig\<close> has \<^verbatim>\<open>DEBUG\<close> false, log level \<^verbatim>\<open>INFO\<close>, \<^verbatim>\<open>MAX_TOTAL_RECORDS\<close> 5000
  and two origins; \<^verbatim>\<open>TestConfig\<close> has \<^verbatim>\<open>DEBUG\<close> true, log level \<^verbatim>\<open>WARNING\<close>,
  \<^verbatim>\<open>MAX_TOTAL_RECORDS\<close> 100 and \<^verbatim>\<open>MAX_PAGINATION_PAGES\<close> 5. The class selected for
  \<^verbatim>\<open>development\<close> and the class selected for \<^verbatim>\<open>production\<close> differ in \<^verbatim>\<open>MAX_TOTAL_RECORDS\<close>
  (10000 and 5000).
\<close>

theorem profile_overrides:
  "LOG_LEVEL (class_attrs Config) = ''INFO'' \<and>
   MAX_TOTAL_RECORDS (class_attrs Config) = 10000 \<and>
   MAX_PAGINATION_PAGES (class_attrs Config) = 50 \<and>
   length (CORS_ORIGINS (class_attrs Config)) = 3 \<and>
   DEBUG (class_attrs Config) = None \<and>
   DEBUG (class_attrs DevelopmentConfig) = Some True \<and>
   LOG_LEVEL (class_attrs DevelopmentConfig) = ''DEBUG'' \<and>
   MAX_TOTAL_RECORDS (class_attrs DevelopmentConfig) = MAX_TOTAL_RECORDS (class_attrs Config) \<and>
   MAX_PAGINATION_PAGES (class_attrs DevelopmentConfig)
     = MAX_PAGINATION_PAGES (class_attrs Config) \<and>
   MAX_RECORDS_PER_REQUEST (class_attrs DevelopmentConfig)
     = MAX_RECORDS_PER_REQUEST (class_attrs Config) \<and>
   CORS_ORIGINS (class_attrs DevelopmentConfig) = CORS_ORIGINS (class_attrs Config) \<and>
   DEBUG (class_attrs ProductionConfig) = Some False \<and>
   LOG_LEVEL (class_attrs ProductionConfig) = ''INFO'' \<and>
   MAX_TOTAL_RECORDS (class_attrs ProductionConfig) = 5000 \<and>
   MAX_PAGINATION_PAGES (class_attrs ProductionConfig)
     = MAX_PAGINATION_PAGES (class_attrs Config) \<and>
   CORS_ORIGINS (class_attrs ProductionConfig)
     = [''http://localhost:8000'', ''http://127.0.0.1:8000''] \<and>
   length (CORS_ORIGINS (class_attrs ProductionConfig)) = 2 \<and>
   DEBUG (class_attrs TestConfig) = Some True \<and>
   LOG_LEVEL (class_attrs TestConfig) = ''WARNING'' \<and>
   MAX_TOTAL_RECORDS (class_attrs TestConfig) = 100 \<and>
   MAX_PAGINATION_PAGES (class_attrs TestConfig) = 5 \<and>
   CORS_ORIGINS (class_attrs TestConfig) = CORS_ORIGINS (class_attrs Config) \<and>
   MAX_TOTAL_RECORDS (class_attrs (get_config [''FLASK_ENV'' \<mapsto> ''development''])) = 10000 \<and>
   MAX_TOTAL_RECORDS (class_attrs (get_config [''FLASK_ENV'' \<mapsto> ''production''])) = 5000 \<and>
   MAX_TOTAL_RECORDS (class_attrs (get_config [''FLASK_ENV'' \<mapsto> ''development'']))
     \<noteq> MAX_TOTAL_RECORDS (class_attrs (get_config [''FLASK_ENV'' \<mapsto> ''production'']))"
proof -
  have d: "get_config [''FLASK_ENV'' \<mapsto> ''development''] = DevelopmentConfig"
    by (simp add: get_config_def getenv_def lower_examples)
  have p: "get_config [''FLASK_ENV'' \<mapsto> ''production''] = ProductionConfig"
    by (simp add: get_config_def getenv_def lower_examples)
  show ?thesis
    unfolding d p by (simp add: Config_attrs_def)
qed

section \<open>Lookups in the table mapping and the summary for the frontend\<close>

lemma get_table_config_None:
  "x \<notin> set (get_all_table_ids ft) \<Longrightarrow> get_table_config ft x = None"
  by (induction ft) (auto simp: get_all_table_ids_def)

lemma get_table_config_Some:
  "x \<in> set (get_all_table_ids ft) \<Longrightarrow>
   \<exists>k e. (k, e) \<in> set ft \<and> id' e = x \<and>
         get_table_config ft x =
           Some \<lparr> id' = id' e, name = name e, date_field = date_field e,
                  sort_direction = sort_direction e, type' = k, is_legacy = False \<rparr>"
proof (induction ft)
  case Nil
  then show ?case by (simp add: get_all_table_ids_def)
next
  case (Cons kv ft)
  obtain k e where kv: "kv = (k, e)" by (cases kv)
  show ?case
  proof (cases "id' e = x")
    case True
    then show ?thesis using kv by auto
  next
    case False
    then have "x \<in> set (get_all_table_ids ft)"
      using Cons.prems kv by (simp add: get_all_table_ids_def)
    from Cons.IH [OF this] show ?thesis
      using False kv by auto
  qed
qed

text \<open>
  C6. For every argument \<open>x\<close> and every value of \<^verbatim>\<open>FRESH_TABLES\<close>: when no entry has \<open>x\<close> as
  its \<^verbatim>\<open>id\<close>, \<^verbatim>\<open>get_table_config(x)\<close> is \<^verbatim>\<open>None\<close>; when some entry has, the result is the
  four fields of an entry whose \<^verbatim>\<open>id\<close> is \<open>x\<close>, with \<^verbatim>\<open>type\<close> the key of that entry and
  \<^verbatim>\<open>is_legacy\<close> false. \<^verbatim>\<open>LEGACY_TABLES\<close> is empty, and the function does not read it.
\<close>

theorem get_table_config_spec:
  "(x \<notin> set (get_all_table_ids ft) \<longrightarrow> get_table_config ft x = None) \<and>
   (x \<in> set (get_all_table_ids ft) \<longrightarrow>
      (\<exists>k e. (k, e) \<in> set ft \<and> id' e = x \<and>
            get_table_config ft x =
              Some \<lparr> id' = id' e, name = name e, date_field = date_field e,
                     sort_direction = sort_direction e, type' = k, is_legacy = False \<rparr>)) \<and>
   LEGACY_TABLES = []"
  using get_table_config_None [of x ft] get_table_config_Some [of x ft]
  by (simp add: LEGACY_TABLES_def)

theorem get_table_config_spec_witness:
  "Some ''tblIhvVihVoghHfVa'' \<in> set (get_all_table_ids
      [ (''ghl'',
          \<lparr> id' = Some ''tbl0Er1mMwZO1Pvfj'', name = ''Cellular Zone GHL'',
            date_field = ''Date Created'', sort_direction = ''desc'' \<rparr>),
        (''google_ads'',
          \<lparr> id' = Some ''tblIhvVihVoghHfVa'', name = ''Cellular Zone Google Ads'',
            date_field = ''Date'', sort_direction = ''desc'' \<rparr>) ]) \<and>
   get_table_config
      [ (''ghl'',
          \<lparr> id' = Some ''tbl0Er1mMwZO1Pvfj'', name = ''Cellular Zone GHL'',
            date_field = ''Date Created'', sort_direction = ''desc'' \<rparr>),
        (''google_ads'',
          \<lparr> id' = Some ''tblIhvVihVoghHfVa'', name = ''Cellular Zone Google Ads'',
            date_field = ''Date'', sort_direction = ''desc'' \<rparr>) ]
      (Some ''tblIhvVihVoghHfVa'')
     = Some \<lparr> id' = Some ''tblIhvVihVoghHfVa'', name = ''Cellular Zone Google Ads'',
              date_field = ''Date'', sort_direction = ''desc'',
              type' = ''google_ads'', is_legacy = False \<rparr> \<and>
   None \<notin> set (get_all_table_ids
      [ (''ghl'',
          \<lparr> id' = Some ''tbl0Er1mMwZO1Pvfj'', name = ''Cellular Zone GHL'',
            date_field = ''Date Created'', sort_direction = ''desc'' \<rparr>),
        (''google_ads'',
          \<lparr> id' = Some ''tblIhvVihVoghHfVa'', name = ''Cellular Zone Google Ads'',
            date_field = ''Date'', sort_direction = ''desc'' \<rparr>) ]) \<and>
   get_table_config
      [ (''ghl'',
          \<lparr> id' = Some ''tbl0Er1mMwZO1Pvfj'', name = ''Cellular Zone GHL'',
            date_field = ''Date Created'', sort_direction = ''desc'' \<rparr>),
        (''google_ads'',
          \<lparr> id' = Some ''tblIhvVihVoghHfVa'', name = ''Cellular Zone Google Ads'',
            date_field = ''Date'', sort_direction = ''desc'' \<rparr>) ]
      None = None"
  (is "?in \<and> ?hit \<and> ?out \<and> ?miss")
proof -
  have i: ?in
    by (simp add: get_all_table_ids_def)
  have o: ?out
    by (simp add: get_all_table_ids_def)
  have h: ?hit
    using get_table_config_spec [of "Some ''tblIhvVihVoghHfVa''"
      "[ (''ghl'',
          \<lparr> id' = Some ''tbl0Er1mMwZO1Pvfj'', name = ''Cellular Zone GHL'',
            date_field = ''Date Created'', sort_direction = ''desc'' \<rparr>),
        (''google_ads'',
          \<lparr> id' = Some ''tblIhvVihVoghHfVa'', name = ''Cellular Zone Google Ads'',
            date_field = ''Date'', sort_direction = ''desc'' \<rparr>) ]"] i
    by auto
  have m: ?miss
    using get_table_config_spec [of None
      "[ (''ghl'',
          \<lparr> id' = Some ''tbl0Er1mMwZO1Pvfj'', name = ''Cellular Zone GHL'',
            date_field = ''Date Created'', sort_direction = ''desc'' \<rparr>),
        (''google_ads'',
          \<lparr> id' = Some ''tblIhvVihVoghHfVa'', name = ''Cellular Zone Google Ads'',
            date_field = ''Date'', sort_direction = ''desc'' \<rparr>) ]"] o
    by blast
  show ?thesis
    using i h o m by blast
qed

text \<open>The import of the class body, on the files of the repository and on a renamed file.\<close>

lemma import_repository_files:
  "import_from repository_files ''server_config'' ''ClientConfig''
     = Inl (ModuleNotFoundError ''server_config'')"
  by (simp add: import_from_def repository_files_def)

lemma import_renamed_file:
  "import_from [''server_config.py'' \<mapsto> Inr [''ClientConfig'' \<mapsto> ClientConfig]]
     ''server_config'' ''ClientConfig'' = Inr ClientConfig"
  by (simp add: import_from_def)

lemma FRESH_TABLES_imported:
  "import_from files ''server_config'' ''ClientConfig'' = Inr cls \<Longrightarrow>
   FRESH_TABLES files = get_fresh_tables cls"
  by (simp add: FRESH_TABLES_def bind_result_def get_fresh_tables_eq)

text \<open>
  C7. \<^verbatim>\<open>get_all_table_ids\<close> returns the \<^verbatim>\<open>id\<close> of every entry of \<^verbatim>\<open>FRESH_TABLES\<close>, in the
  order of the dict. For the \<^verbatim>\<open>ClientConfig\<close> of the file, \<^verbatim>\<open>get_fresh_tables()\<close> has exactly
  the keys \<^verbatim>\<open>ghl\<close> and \<^verbatim>\<open>google_ads\<close>, and \<^verbatim>\<open>is_enabled("pos")\<close> is false. With the files of
  the repository the import of \<^verbatim>\<open>server_config\<close> finds no module, the file being
  \<^verbatim>\<open>server-config.py\<close>; the handler runs, \<^verbatim>\<open>FRESH_TABLES\<close> is the placeholder dict, and
  \<^verbatim>\<open>get_all_table_ids()\<close> is the list of the six template ids, not the list of the two
  configured ids. With the same module under the file name \<^verbatim>\<open>server_config.py\<close>,
  \<^verbatim>\<open>get_all_table_ids()\<close> is the list of the two configured ids, \<^verbatim>\<open>ghl\<close> first.
\<close>

theorem get_all_table_ids_repository:
  "get_all_table_ids ft = map (\<lambda>kv. id' (snd kv)) ft \<and>
   get_fresh_tables ClientConfig =
     Inr [ (''ghl'',
             \<lparr> id' = Some ''tbl0Er1mMwZO1Pvfj'', name = ''Cellular Zone GHL'',
               date_field = ''Date Created'', sort_direction = ''desc'' \<rparr>),
           (''google_ads'',
             \<lparr> id' = Some ''tblIhvVihVoghHfVa'', name = ''Cellular Zone Google Ads'',
               date_field = ''Date'', sort_direction = ''desc'' \<rparr>) ] \<and>
   \<not> is_enabled ClientConfig ''pos'' \<and>
   import_from repository_files ''server_config'' ''ClientConfig''
     = Inl (ModuleNotFoundError ''server_config'') \<and>
   (\<exists>fresh_tables.
      FRESH_TABLES repository_files = Inr fresh_tables \<and>
      map fst fresh_tables =
        [''ghl'', ''pos'', ''meta_ads'', ''meta_ads_summary'', ''meta_ads_simplified'',
         ''google_ads''] \<and>
      get_all_table_ids fresh_tables =
        [Some ''CLIENT_GHL_TABLE_ID'', Some ''CLIENT_POS_TABLE_ID'',
         Some ''CLIENT_META_ADS_TABLE_ID'', Some ''CLIENT_META_ADS_SUMMARY_TABLE_ID'',
         Some ''CLIENT_META_ADS_SIMPLIFIED_TABLE_ID'', Some ''CLIENT_GOOGLE_ADS_TABLE_ID''] \<and>
      get_all_table_ids fresh_tables
        \<noteq> [Some ''tbl0Er1mMwZO1Pvfj'', Some ''tblIhvVihVoghHfVa'']) \<and>
   (\<exists>fresh_tables.
      FRESH_TABLES [''server_config.py'' \<mapsto> Inr [''ClientConfig'' \<mapsto> ClientConfig]]
        = Inr fresh_tables \<and>
      map fst fresh_tables = [''ghl'', ''google_ads''] \<and>
      get_all_table_ids fresh_tables = [Some ''tbl0Er1mMwZO1Pvfj'', Some ''tblIhvVihVoghHfVa''])"
proof -
  have a: "get_all_table_ids ft = map (\<lambda>kv. id' (snd kv)) ft"
    by (simp add: get_all_table_ids_def comp_def)
  have b: "\<not> is_enabled ClientConfig ''pos''"
    by (simp add: is_enabled_def dict_get_def ClientConfig_def)
  have c: "\<exists>fresh_tables.
      FRESH_TABLES repository_files = Inr fresh_tables \<and>
      map fst fresh_tables =
        [''ghl'', ''pos'', ''meta_ads'', ''meta_ads_summary'', ''meta_ads_simplified'',
         ''google_ads''] \<and>
      get_all_table_ids fresh_tables =
        [Some ''CLIENT_GHL_TABLE_ID'', Some ''CLIENT_POS_TABLE_ID'',
         Some ''CLIENT_META_ADS_TABLE_ID'', Some ''CLIENT_META_ADS_SUMMARY_TABLE_ID'',
         Some ''CLIENT_META_ADS_SIMPLIFIED_TABLE_ID'', Some ''CLIENT_GOOGLE_ADS_TABLE_ID''] \<and>
      get_all_table_ids fresh_tables
        \<noteq> [Some ''tbl0Er1mMwZO1Pvfj'', Some ''tblIhvVihVoghHfVa'']"
    by (simp add: FRESH_TABLES_def bind_result_def import_repository_files
        get_all_table_ids_def)
  have d: "\<exists>fresh_tables.
      FRESH_TABLES [''server_config.py'' \<mapsto> Inr [''ClientConfig'' \<mapsto> ClientConfig]]
        = Inr fresh_tables \<and>
      map fst fresh_tables = [''ghl'', ''google_ads''] \<and>
      get_all_table_ids fresh_tables = [Some ''tbl0Er1mMwZO1Pvfj'', Some ''tblIhvVihVoghHfVa'']"
    by (simp add: FRESH_TABLES_imported [OF import_renamed_file] derived_ClientConfig
        get_all_table_ids_def)
  show ?thesis
    by (intro conjI a b c d derived_ClientConfig import_repository_files)
qed

text \<open>
  C8. \<^verbatim>\<open>get_table_id(s)\<close> is \<^verbatim>\<open>TABLE_IDS.get(s)\<close>, unless that value is \<^verbatim>\<open>None\<close>, the empty
  string or the string \<^verbatim>\<open>"null"\<close>, where it is \<^verbatim>\<open>None\<close>. The result is the same whatever
  \<^verbatim>\<open>ENABLED_SOURCES\<close> holds. The test is weaker than \<^verbatim>\<open>is_enabled\<close>: an enabled key has a
  table id, and a key with a table id need not be enabled.
\<close>

theorem get_table_id_spec:
  "get_table_id cls s =
     (if dict_get (TABLE_IDS cls) s = None \<or> dict_get (TABLE_IDS cls) s = Some '''' \<or>
         dict_get (TABLE_IDS cls) s = Some ''null''
      then None else dict_get (TABLE_IDS cls) s) \<and>
   get_table_id (cls\<lparr>ENABLED_SOURCES := es\<rparr>) s = get_table_id cls s \<and>
   (is_enabled cls s \<longrightarrow> get_table_id cls s \<noteq> None) \<and>
   get_table_id (ClientConfig\<lparr>ENABLED_SOURCES := []\<rparr>) ''ghl'' = Some ''tbl0Er1mMwZO1Pvfj'' \<and>
   \<not> is_enabled (ClientConfig\<lparr>ENABLED_SOURCES := []\<rparr>) ''ghl''"
proof -
  have a: "get_table_id cls s =
     (if dict_get (TABLE_IDS cls) s = None \<or> dict_get (TABLE_IDS cls) s = Some '''' \<or>
         dict_get (TABLE_IDS cls) s = Some ''null''
      then None else dict_get (TABLE_IDS cls) s)"
    by (cases "dict_get (TABLE_IDS cls) s") (simp_all add: get_table_id_def truthy_def Let_def)
  have b: "get_table_id (cls\<lparr>ENABLED_SOURCES := es\<rparr>) s = get_table_id cls s"
    by (simp add: get_table_id_def)
  have c: "is_enabled cls s \<longrightarrow> get_table_id cls s \<noteq> None"
    unfolding a by (simp add: is_enabled_def)
  have d: "get_table_id (ClientConfig\<lparr>ENABLED_SOURCES := []\<rparr>) ''ghl'' = Some ''tbl0Er1mMwZO1Pvfj''"
    by (simp add: get_table_id_def truthy_def dict_get_def ClientConfig_def)
  have e: "\<not> is_enabled (ClientConfig\<lparr>ENABLED_SOURCES := []\<rparr>) ''ghl''"
    by (simp add: is_enabled_def)
  show ?thesis
    using a b c d e by blast
qed

theorem get_table_id_spec_witness:
  "is_enabled ClientConfig ''google_ads'' \<and>
   get_table_id ClientConfig ''google_ads'' \<noteq> None \<and>
   get_table_id ClientConfig ''google_ads'' = Some ''tblIhvVihVoghHfVa'' \<and>
   get_table_id ClientConfig ''pos'' = None \<and>
   get_table_id ClientConfig ''unknown'' = None"
proof -
  have en: "is_enabled ClientConfig ''google_ads''"
    by (simp add: is_enabled_def dict_get_def ClientConfig_def)
  have v: "dict_get (TABLE_IDS ClientConfig) ''google_ads'' = Some ''tblIhvVihVoghHfVa''"
    "dict_get (TABLE_IDS ClientConfig) ''pos'' = None"
    "dict_get (TABLE_IDS ClientConfig) ''unknown'' = None"
    by (simp_all add: dict_get_def ClientConfig_def)
  show ?thesis
    using get_table_id_spec [of ClientConfig "''google_ads''" "[]"]
      get_table_id_spec [of ClientConfig "''pos''" "[]"]
      get_table_id_spec [of ClientConfig "''unknown''" "[]"] en v
    by simp
qed

lemma replace_char: "replace s [c] [d] = map (\<lambda>x. if x = c then d else x) s"
  by (induction s) simp_all

text \<open>
  C9. In the dict \<^verbatim>\<open>get_client_config_for_frontend()\<close> returns, \<^verbatim>\<open>client_id\<close> is the client
  name in lower case with every space replaced by an underscore, \<^verbatim>\<open>enabled_tabs\<close> is
  \<^verbatim>\<open>overview\<close> followed by \<^verbatim>\<open>ENABLED_SOURCES\<close>, \<^verbatim>\<open>default_tab\<close> is \<^verbatim>\<open>overview\<close> and
  \<^verbatim>\<open>base_id\<close> is \<^verbatim>\<open>AIRTABLE_BASE_ID\<close>; for the \<^verbatim>\<open>ClientConfig\<close> of the file the tabs are
  \<^verbatim>\<open>overview\<close>, \<^verbatim>\<open>ghl\<close>, \<^verbatim>\<open>google_ads\<close>.
\<close>

theorem frontend_summary:
  "client_id (client_info (get_client_config_for_frontend cls))
     = map (\<lambda>ch. if ch = CHR '' '' then CHR ''_'' else ch) (lower (CLIENT_NAME cls)) \<and>
   business_name (client_info (get_client_config_for_frontend cls)) = BUSINESS_NAME cls \<and>
   enabled_tabs (tab_configuration (get_client_config_for_frontend cls))
     = ''overview'' # ENABLED_SOURCES cls \<and>
   default_tab (tab_configuration (get_client_config_for_frontend cls)) = ''overview'' \<and>
   base_id (airtable_configuration (get_client_config_for_frontend cls))
     = AIRTABLE_BASE_ID cls \<and>
   client_id (client_info (get_client_config_for_frontend ClientConfig)) = ''cellular_zone'' \<and>
   enabled_tabs (tab_configuration (get_client_config_for_frontend ClientConfig))
     = [''overview'', ''ghl'', ''google_ads''] \<and>
   default_tab (tab_configuration (get_client_config_for_frontend ClientConfig)) = ''overview'' \<and>
   base_id (airtable_configuration (get_client_config_for_frontend ClientConfig))
     = ''app9JgRBZC2GNlaKM''"
proof -
  have l: "lower ''Cellular Zone'' = ''cellular zone''"
    by (simp add: lower_def char_lower_def char_of_def bit_Suc_0_iff)
  show ?thesis
    by (simp add: get_client_config_for_frontend_def replace_char l ClientConfig_def)
qed

section \<open>The placeholder mapping\<close>

lemma fallback_lists:
  assumes "import_from files ''server_config'' ''ClientConfig'' = Inl err" and "is_ImportError err"
  shows "\<exists>ft. FRESH_TABLES files = Inr ft \<and>
     map fst ft =
       [''ghl'', ''pos'', ''meta_ads'', ''meta_ads_summary'', ''meta_ads_simplified'',
        ''google_ads''] \<and>
     map (\<lambda>kv. id' (snd kv)) ft =
       [Some ''CLIENT_GHL_TABLE_ID'', Some ''CLIENT_POS_TABLE_ID'',
        Some ''CLIENT_META_ADS_TABLE_ID'', Some ''CLIENT_META_ADS_SUMMARY_TABLE_ID'',
        Some ''CLIENT_META_ADS_SIMPLIFIED_TABLE_ID'', Some ''CLIENT_GOOGLE_ADS_TABLE_ID''] \<and>
     map (\<lambda>kv. name (snd kv)) ft =
       [''CLIENT_NAME GHL'', ''CLIENT_NAME POS'', ''CLIENT_NAME Meta Ads'',
        ''CLIENT_NAME Meta Ads Summary'', ''CLIENT_NAME Meta Ads Simplified'',
        ''CLIENT_NAME Google Ads''] \<and>
     map (\<lambda>kv. date_field (snd kv)) ft =
       [''Date Created'', ''Created'', ''Reporting ends'', ''Reporting ends'', ''period'',
        ''Date''] \<and>
     map (\<lambda>kv. sort_direction (snd kv)) ft =
       [''desc'', ''desc'', ''desc'', ''desc'', ''desc'', ''desc'']"
  using assms by (simp add: FRESH_TABLES_def bind_result_def)

lemma fallback_entry_in_table:
  assumes "import_from files ''server_config'' ''ClientConfig'' = Inl err" and "is_ImportError err"
    and "FRESH_TABLES files = Inr ft" and "map_of ft k = Some e"
  shows "\<exists>suffix. (k, suffix, date_field e) \<in> set spec_source_table \<and>
                  name e = ''CLIENT_NAME '' @ suffix \<and> sort_direction e = ''desc''"
  using assms
  by (auto simp: FRESH_TABLES_def bind_result_def spec_source_table_def split: if_splits)

lemma spec_source_table_unique:
  "(k, suffix, df) \<in> set spec_source_table \<Longrightarrow> (k, suffix', df') \<in> set spec_source_table \<Longrightarrow>
   suffix' = suffix \<and> df' = df"
  using eq_key_imp_eq_value [OF distinct_spec_source_table, of k "(suffix, df)" "(suffix', df')"]
  by simp

lemma fallback_matches_derived:
  assumes "import_from files ''server_config'' ''ClientConfig'' = Inl err" and "is_ImportError err"
    and "FRESH_TABLES files = Inr ft" and "get_fresh_tables cls = Inr ft'"
    and "map_of ft k = Some e" and "map_of ft' k = Some e'"
  shows "date_field e' = date_field e \<and> sort_direction e' = sort_direction e"
proof -
  obtain suffix where s: "(k, suffix, date_field e) \<in> set spec_source_table"
    "sort_direction e = ''desc''"
    using fallback_entry_in_table [OF assms(1,2,3,5)] by blast
  have "(k, e') \<in> set (spec_fresh_tables cls)"
    using assms(4,6) by (simp add: get_fresh_tables_eq map_of_SomeD)
  then obtain row where row: "row \<in> set spec_source_table" "k = fst row" "e' = spec_entry cls row"
    using spec_fresh_tables_member by blast
  obtain suffix' df' where r: "row = (k, suffix', df')"
    using row(2) by (cases row) simp
  have "df' = date_field e"
    using spec_source_table_unique [OF s(1), of suffix' df'] row(1) r by simp
  then show ?thesis
    using row(3) r s(2) by (simp add: spec_entry_def)
qed

text \<open>
  C3. When the import of \<^verbatim>\<open>ClientConfig\<close> from \<^verbatim>\<open>server_config\<close> raises \<^verbatim>\<open>ImportError\<close> or
  a subclass of it (the module is not found, or does not bind the name), the class body
  does not raise and \<^verbatim>\<open>FRESH_TABLES\<close> is the literal dict of the handler: exactly the six
  keys \<^verbatim>\<open>ghl\<close>, \<^verbatim>\<open>pos\<close>, \<^verbatim>\<open>meta_ads\<close>, \<^verbatim>\<open>meta_ads_summary\<close>, \<^verbatim>\<open>meta_ads_simplified\<close>,
  \<^verbatim>\<open>google_ads\<close>, in this order, with the template ids and names listed. Every key is a
  source key of the specification's table, with the date field of its row, a name made of
  \<^verbatim>\<open>CLIENT_NAME\<close>, a space and the row's suffix, and the sort direction \<^verbatim>\<open>desc\<close>; and
  whenever a derived mapping has an entry under the same key, the two entries agree on
  \<^verbatim>\<open>date_field\<close> and \<^verbatim>\<open>sort_direction\<close>.
\<close>

theorem fallback_fresh_tables:
  assumes "import_from files ''server_config'' ''ClientConfig'' = Inl err" and "is_ImportError err"
  shows "\<exists>ft. FRESH_TABLES files = Inr ft \<and>
     map fst ft =
       [''ghl'', ''pos'', ''meta_ads'', ''meta_ads_summary'', ''meta_ads_simplified'',
        ''google_ads''] \<and>
     map (\<lambda>kv. id' (snd kv)) ft =
       [Some ''CLIENT_GHL_TABLE_ID'', Some ''CLIENT_POS_TABLE_ID'',
        Some ''CLIENT_META_ADS_TABLE_ID'', Some ''CLIENT_META_ADS_SUMMARY_TABLE_ID'',
        Some ''CLIENT_META_ADS_SIMPLIFIED_TABLE_ID'', Some ''CLIENT_GOOGLE_ADS_TABLE_ID''] \<and>
     map (\<lambda>kv. name (snd kv)) ft =
       [''CLIENT_NAME GHL'', ''CLIENT_NAME POS'', ''CLIENT_NAME Meta Ads'',
        ''CLIENT_NAME Meta Ads Summary'', ''CLIENT_NAME Meta Ads Simplified'',
        ''CLIENT_NAME Google Ads''] \<and>
     map (\<lambda>kv. date_field (snd kv)) ft =
       [''Date Created'', ''Created'', ''Reporting ends'', ''Reporting ends'', ''period'',
        ''Date''] \<and>
     map (\<lambda>kv. sort_direction (snd kv)) ft =
       [''desc'', ''desc'', ''desc'', ''desc'', ''desc'', ''desc''] \<and>
     (\<forall>k e. map_of ft k = Some e \<longrightarrow>
        (\<exists>suffix. (k, suffix, date_field e) \<in> set spec_source_table \<and>
                  name e = ''CLIENT_NAME '' @ suffix \<and> sort_direction e = ''desc'')) \<and>
     (\<forall>cls ft' k e e'.
        get_fresh_tables cls = Inr ft' \<and> map_of ft k = Some e \<and> map_of ft' k = Some e' \<longrightarrow>
        date_field e' = date_field e \<and> sort_direction e' = sort_direction e)"
proof -
  from fallback_lists [OF assms] obtain ft where ft: "FRESH_TABLES files = Inr ft"
    and lists: "map fst ft =
       [''ghl'', ''pos'', ''meta_ads'', ''meta_ads_summary'', ''meta_ads_simplified'',
        ''google_ads'']"
     "map (\<lambda>kv. id' (snd kv)) ft =
       [Some ''CLIENT_GHL_TABLE_ID'', Some ''CLIENT_POS_TABLE_ID'',
        Some ''CLIENT_META_ADS_TABLE_ID'', Some ''CLIENT_META_ADS_SUMMARY_TABLE_ID'',
        Some ''CLIENT_META_ADS_SIMPLIFIED_TABLE_ID'', Some ''CLIENT_GOOGLE_ADS_TABLE_ID'']"
     "map (\<lambda>kv. name (snd kv)) ft =
       [''CLIENT_NAME GHL'', ''CLIENT_NAME POS'', ''CLIENT_NAME Meta Ads'',
        ''CLIENT_NAME Meta Ads Summary'', ''CLIENT_NAME Meta Ads Simplified'',
        ''CLIENT_NAME Google Ads'']"
     "map (\<lambda>kv. date_field (snd kv)) ft =
       [''Date Created'', ''Created'', ''Reporting ends'', ''Reporting ends'', ''period'',
        ''Date'']"
     "map (\<lambda>kv. sort_direction (snd kv)) ft =
       [''desc'', ''desc'', ''desc'', ''desc'', ''desc'', ''desc'']"
    by (elim exE conjE)
  have tbl: "\<forall>k e. map_of ft k = Some e \<longrightarrow>
        (\<exists>suffix. (k, suffix, date_field e) \<in> set spec_source_table \<and>
                  name e = ''CLIENT_NAME '' @ suffix \<and> sort_direction e = ''desc'')"
    using fallback_entry_in_table [OF assms ft] by blast
  have der: "\<forall>cls ft' k e e'.
        get_fresh_tables cls = Inr ft' \<and> map_of ft k = Some e \<and> map_of ft' k = Some e' \<longrightarrow>
        date_field e' = date_field e \<and> sort_direction e' = sort_direction e"
    using fallback_matches_derived [OF assms ft] by blast
  show ?thesis
    by (rule exI [of _ ft]) (intro conjI ft lists tbl der)
qed

theorem fallback_fresh_tables_witness:
  "import_from repository_files ''server_config'' ''ClientConfig''
     = Inl (ModuleNotFoundError ''server_config'') \<and>
   is_ImportError (ModuleNotFoundError ''server_config'') \<and>
   (\<exists>ft ft' e e'. FRESH_TABLES repository_files = Inr ft \<and>
     get_fresh_tables ClientConfig = Inr ft' \<and>
     map_of ft ''ghl'' = Some e \<and> map_of ft' ''ghl'' = Some e' \<and>
     id' e = Some ''CLIENT_GHL_TABLE_ID'' \<and> id' e' = Some ''tbl0Er1mMwZO1Pvfj'' \<and>
     date_field e' = date_field e \<and> date_field e = ''Date Created'' \<and>
     sort_direction e' = sort_direction e)"
proof -
  have imp: "import_from repository_files ''server_config'' ''ClientConfig''
     = Inl (ModuleNotFoundError ''server_config'')"
    by (rule import_repository_files)
  have cls: "is_ImportError (ModuleNotFoundError ''server_config'')"
    by simp
  from fallback_fresh_tables [OF imp cls] obtain ft
    where ft: "FRESH_TABLES repository_files = Inr ft"
    and der: "\<forall>cls ft' k e e'.
        get_fresh_tables cls = Inr ft' \<and> map_of ft k = Some e \<and> map_of ft' k = Some e' \<longrightarrow>
        date_field e' = date_field e \<and> sort_direction e' = sort_direction e"
    by blast
  obtain e where e: "map_of ft ''ghl'' = Some e" "id' e = Some ''CLIENT_GHL_TABLE_ID''"
    "date_field e = ''Date Created''"
    using ft imp by (auto simp: FRESH_TABLES_def bind_result_def)
  obtain ft' e' where e': "get_fresh_tables ClientConfig = Inr ft'" "map_of ft' ''ghl'' = Some e'"
    "id' e' = Some ''tbl0Er1mMwZO1Pvfj''"
    by (simp add: derived_ClientConfig)
  have "date_field e' = date_field e \<and> sort_direction e' = sort_direction e"
    using der e(1) e'(1,2) by blast
  then show ?thesis
    using imp cls ft e e' by blast
qed

text \<open>
  The claim without the restriction to \<^verbatim>\<open>ImportError\<close> fails: a module \<^verbatim>\<open>server_config\<close>
  whose code raises an exception of another class, here a \<^verbatim>\<open>SyntaxError\<close>, cannot be
  loaded either, and the exception leaves the class body instead of the placeholder being
  assigned.
\<close>

theorem fallback_fresh_tables_counterexample:
  "import_from [''server_config.py'' \<mapsto> Inl (OtherException ''SyntaxError'')]
      ''server_config'' ''ClientConfig'' = Inl (OtherException ''SyntaxError'') \<and>
   FRESH_TABLES [''server_config.py'' \<mapsto> Inl (OtherException ''SyntaxError'')]
     = Inl (OtherException ''SyntaxError'')"
  by (simp add: FRESH_TABLES_def bind_result_def import_from_def)

end
